theory Spec2Isabelle
  imports Complex_Main "HOL-Library.Sublist" "HOL-Library.Log_Nat"
begin

section \<open>CoarseDropout: values, errors and the random source\<close>

text \<open>
  \<^verbatim>\<open>ScalarType = Union[int, float]\<close>. A Python int is unbounded. A finite float is a
  rational number, one of those binary64 represents; every float operation below rounds its
  exact result to binary64 with \<open>fl\<close>.
\<close>

datatype scalar = IntV int | FloatV rat

fun val :: "scalar \<Rightarrow> rat" where
  "val (IntV i) = of_int i"
| "val (FloatV r) = r"

text \<open>\<^verbatim>\<open>isinstance(x, int)\<close> and \<^verbatim>\<open>isinstance(x, float)\<close>.\<close>

fun is_int :: "scalar \<Rightarrow> bool" where
  "is_int (IntV i) = True"
| "is_int (FloatV r) = False"

fun is_float :: "scalar \<Rightarrow> bool" where
  "is_float (IntV i) = False"
| "is_float (FloatV r) = True"

text \<open>Truth value of a number: zero is falsy.\<close>

fun truthy :: "scalar \<Rightarrow> bool" where
  "truthy (IntV i) = (i \<noteq> 0)"
| "truthy (FloatV r) = (r \<noteq> 0)"

text \<open>\<^verbatim>\<open>a or b\<close> with \<^verbatim>\<open>a\<close> possibly None: the first operand when it is truthy.\<close>

fun py_or :: "scalar option \<Rightarrow> scalar \<Rightarrow> scalar" where
  "py_or None b = b"
| "py_or (Some a) b = (if truthy a then a else b)"

text \<open>\<^verbatim>\<open>min(a, b)\<close> returns its first argument unless the second is smaller.\<close>

definition py_min :: "scalar \<Rightarrow> scalar \<Rightarrow> scalar" where
  "py_min a b = (if val b < val a then b else a)"

subsection \<open>Binary64 arithmetic\<close>

text \<open>\<open>2\<close> to an integer power.\<close>

definition pow2 :: "int \<Rightarrow> rat" where
  "pow2 e = (if 0 \<le> e then 2 ^ nat e else 1 / 2 ^ nat (- e))"

text \<open>The nearest integer, a tie going to the even one.\<close>

definition round_half_even :: "rat \<Rightarrow> int" where
  "round_half_even q =
     (let n = \<lfloor>q\<rfloor>; d = q - of_int n in
      if d < 1 / 2 then n
      else if 1 / 2 < d then n + 1
      else if even n then n else n + 1)"

text \<open>
  The binary exponent of a positive rational \<open>p / q\<close>: the \<open>e\<close> with \<open>2^e \<le> p / q < 2^(e+1)\<close>,
  which is the difference \<open>d\<close> of the bit lengths of \<open>p\<close> and \<open>q\<close> or \<open>d - 1\<close>.
\<close>

definition ilog2 :: "rat \<Rightarrow> int" where
  "ilog2 x =
     (case quotient_of x of
        (p, q) \<Rightarrow> (let d = bitlen p - bitlen q in if pow2 d \<le> x then d else d - 1))"

text \<open>
  Rounding to binary64: to the nearest multiple of the unit in the last of 53 significant
  bits (of \<open>2^-1074\<close> for subnormal numbers), ties to even. Overflow to infinity is not
  modelled.
\<close>

definition fl :: "rat \<Rightarrow> rat" where
  "fl x =
     (if x = 0 then 0
      else (let e = max (ilog2 \<bar>x\<bar> - 52) (- 1074)
            in of_int (round_half_even (x / pow2 e)) * pow2 e))"

subsection \<open>Conversions\<close>

text \<open>\<^verbatim>\<open>x + 1\<close> keeps the type of \<^verbatim>\<open>x\<close>; on a float it is a float addition.\<close>

fun plus1 :: "scalar \<Rightarrow> scalar" where
  "plus1 (IntV i) = IntV (i + 1)"
| "plus1 (FloatV r) = FloatV (fl (r + 1))"

text \<open>\<^verbatim>\<open>int(x)\<close> on a float truncates towards zero.\<close>

definition py_int :: "rat \<Rightarrow> int" where
  "py_int r = (if 0 \<le> r then \<lfloor>r\<rfloor> else \<lceil>r\<rceil>)"

fun to_int :: "scalar \<Rightarrow> int" where
  "to_int (IntV i) = i"
| "to_int (FloatV r) = py_int r"

text \<open>
  Every error of this file is a Python \<^verbatim>\<open>ValueError\<close>: the two messages of
  \<^verbatim>\<open>validate_range\<close> (with the range's name) and the one of the random source.
\<close>

datatype error =
    RangeOrderError string
  | RangeUnitError string
  | LowGeHigh

type_synonym range = "scalar \<times> scalar"

type_synonym hole = "int \<times> int \<times> int \<times> int"

text \<open>
  The state of the random source is the sequence of raw draws still to come, each read
  as a point of the unit interval \<open>[0, 1)\<close> by \<^const>\<open>frac\<close>; a list that has run out
  goes on with zeros, so every call returns.
\<close>

type_synonym rng = "rat list"

fun next_unit :: "rng \<Rightarrow> rat \<times> rng" where
  "next_unit [] = (0, [])"
| "next_unit (r # rs) = (frac r, rs)"

text \<open>
  Modelled from the spec: \<^verbatim>\<open>albumentations.random_utils.randint\<close> is not part of the
  sources at hand. \<^verbatim>\<open>randint(low, high)\<close> draws an integer uniformly from the half-open
  interval \<open>[low, high)\<close>, so that the callers' \<^verbatim>\<open>randint(low, high + 1)\<close> is the spec's
  draw from the inclusive interval \<open>[low, high]\<close>; scalar bounds are converted with
  \<^verbatim>\<open>int()\<close>, and an empty interval raises \<^verbatim>\<open>ValueError("low >= high")\<close>. The draw is
  the unit point scaled to the interval; the bounds of the result's machine type are not
  modelled.
\<close>

definition randint :: "scalar \<Rightarrow> scalar \<Rightarrow> rng \<Rightarrow> error + (int \<times> rng)" where
  "randint low high g =
     (let lo = to_int low; hi = to_int high in
      if hi \<le> lo then Inl LowGeHigh
      else (case next_unit g of (u, g') \<Rightarrow> Inr (lo + \<lfloor>u * of_int (hi - lo)\<rfloor>, g')))"

text \<open>The unit point cut to the 53 bits of a float in \<open>[0, 1)\<close>.\<close>

definition unit53 :: "rat \<Rightarrow> rat" where
  "unit53 u = of_int \<lfloor>u * 2 ^ 53\<rfloor> / 2 ^ 53"

text \<open>
  Modelled from the spec: \<^verbatim>\<open>albumentations.random_utils.uniform\<close> is not part of the
  sources at hand. \<^verbatim>\<open>uniform(low, high)\<close> draws a fraction uniformly between \<^verbatim>\<open>low\<close> and
  \<^verbatim>\<open>high\<close>: the float \<open>low + (high - low) * u\<close> for the unit point \<open>u\<close>, with the bounds
  converted to floats and each operation rounded; it never raises.
\<close>

definition uniform :: "scalar \<Rightarrow> scalar \<Rightarrow> rng \<Rightarrow> rat \<times> rng" where
  "uniform low high g =
     (case next_unit g of
        (u, g') \<Rightarrow>
          (let lo = fl (val low);
               hi = fl (val high)
           in (fl (lo + fl (fl (hi - lo) * unit53 u)), g')))"

section \<open>The transform and its schema\<close>

text \<open>
  \<^verbatim>\<open>fill_value: Union[ColorType, Literal["random"]]\<close> and \<^verbatim>\<open>ColorType\<close>: a scalar or a
  sequence of scalars.
\<close>

datatype color = Scalar scalar | PerChannel "scalar list"

datatype fill = Fill color | Random

text \<open>The five attributes \<^verbatim>\<open>__init__\<close> stores on the transform.\<close>

record coarse_dropout =
  num_holes_range :: range
  hole_height_range :: range
  hole_width_range :: range
  fill_value :: fill
  mask_fill_value :: "color option"

text \<open>\<^verbatim>\<open>InitSchema\<close>: the same five fields and the six deprecated ones.\<close>

record init_schema = coarse_dropout +
  min_holes :: "scalar option"
  max_holes :: "scalar option"
  min_height :: "scalar option"
  max_height :: "scalar option"
  min_width :: "scalar option"
  max_width :: "scalar option"

text \<open>The field defaults of \<^verbatim>\<open>InitSchema\<close>.\<close>

definition InitSchema_defaults :: init_schema where
  "InitSchema_defaults =
     \<lparr> num_holes_range = (IntV 1, IntV 1),
       hole_height_range = (IntV 8, IntV 8),
       hole_width_range = (IntV 8, IntV 8),
       fill_value = Fill (Scalar (IntV 0)),
       mask_fill_value = None,
       min_holes = None, max_holes = Some (IntV 8),
       min_height = None, max_height = Some (IntV 8),
       min_width = None, max_width = Some (IntV 8) \<rparr>"

subsection \<open>\<^verbatim>\<open>check_holes_and_dimensions\<close>\<close>

definition update_range :: "scalar option \<Rightarrow> scalar option \<Rightarrow> range \<Rightarrow> range" where
  "update_range min_value max_value default_range =
     (case max_value of
        Some mx \<Rightarrow> (py_or min_value mx, mx)
      | None \<Rightarrow> default_range)"

text \<open>The three assignments that open the validator.\<close>

definition update_ranges :: "init_schema \<Rightarrow> init_schema" where
  "update_ranges s =
     s\<lparr> num_holes_range := update_range (min_holes s) (max_holes s) (num_holes_range s),
        hole_height_range := update_range (min_height s) (max_height s) (hole_height_range s),
        hole_width_range := update_range (min_width s) (max_width s) (hole_width_range s) \<rparr>"

definition validate_range :: "range \<Rightarrow> string \<Rightarrow> rat \<Rightarrow> error + unit" where
  "validate_range range_value range_name minimum =
     (if \<not> (minimum \<le> val (fst range_value) \<and> val (fst range_value) \<le> val (snd range_value))
      then Inl (RangeOrderError range_name)
      else if is_float (fst range_value)
              \<and> \<not> list_all (\<lambda>x. 0 \<le> val x \<and> val x \<le> 1) [fst range_value, snd range_value]
      then Inl (RangeUnitError range_name)
      else Inr ())"

definition check_holes_and_dimensions :: "init_schema \<Rightarrow> error + init_schema" where
  "check_holes_and_dimensions s0 =
     (let s = update_ranges s0 in
      case validate_range (num_holes_range s) ''num_holes_range'' 1 of
        Inl e \<Rightarrow> Inl e
      | Inr _ \<Rightarrow>
      (case validate_range (hole_height_range s) ''hole_height_range'' 0 of
        Inl e \<Rightarrow> Inl e
      | Inr _ \<Rightarrow>
      (case validate_range (hole_width_range s) ''hole_width_range'' 0 of
        Inl e \<Rightarrow> Inl e
      | Inr _ \<Rightarrow> Inr s)))"

section \<open>The target applicator\<close>

text \<open>
  \<^verbatim>\<open>apply_to_mask\<close>. The region overwrite \<^verbatim>\<open>cutout\<close> of \<^verbatim>\<open>functional.py\<close> is not part
  of the sources at hand and is a parameter; a buffer is its rows of elements.
\<close>

definition apply_to_mask ::
  "('px list list \<Rightarrow> hole list \<Rightarrow> color \<Rightarrow> 'px list list)
     \<Rightarrow> 'px list list \<Rightarrow> color option \<Rightarrow> hole list \<Rightarrow> 'px list list" where
  "apply_to_mask cutout mask_buf mask_fill holes =
     (case mask_fill of
        None \<Rightarrow> mask_buf
      | Some v \<Rightarrow> cutout mask_buf holes v)"

text \<open>A keypoint: its \<open>x\<close> and \<open>y\<close>, and the fields that pass through.\<close>

type_synonym 'a keypoint = "rat \<times> rat \<times> 'a"

text \<open>
  Modelled from the spec: \<^verbatim>\<open>keypoint_in_hole\<close> of \<^verbatim>\<open>functional.py\<close> is not part of the
  sources at hand. A point \<open>(px, py)\<close> is inside hole \<open>(x1, y1, x2, y2)\<close> iff
  \<open>x1 \<le> px < x2\<close> and \<open>y1 \<le> py < y2\<close>.
\<close>

fun keypoint_in_hole :: "'a keypoint \<Rightarrow> hole \<Rightarrow> bool" where
  "keypoint_in_hole (x, y, rest) (x1, y1, x2, y2) =
     (of_int x1 \<le> x \<and> x < of_int x2 \<and> of_int y1 \<le> y \<and> y < of_int y2)"

definition apply_to_keypoints :: "'a keypoint list \<Rightarrow> hole list \<Rightarrow> 'a keypoint list" where
  "apply_to_keypoints keypoints holes =
     filter (\<lambda>keypoint. \<not> list_ex (\<lambda>hole. keypoint_in_hole keypoint hole) holes) keypoints"

section \<open>The hole sampler\<close>

text \<open>
  \<^verbatim>\<open>calculate_hole_dimensions\<close>. In the float branch \<^verbatim>\<open>height * uniform(...)\<close> is the float
  product of the image dimension, converted to a float, and the fraction drawn; \<^verbatim>\<open>int\<close>
  truncates it.
\<close>

definition calculate_hole_dimensions ::
  "int \<Rightarrow> int \<Rightarrow> range \<Rightarrow> range \<Rightarrow> rng \<Rightarrow> error + ((int \<times> int) \<times> rng)" where
  "calculate_hole_dimensions height width height_range width_range g =
     (if is_int (fst height_range) then
        (let min_height = fst height_range;
             max_height = snd height_range;
             min_width = fst width_range;
             max_width = snd width_range;
             max_height = py_min max_height (IntV height);
             max_width = py_min max_width (IntV width)
         in case randint min_height (plus1 max_height) g of
              Inl e \<Rightarrow> Inl e
            | Inr (hole_height, g1) \<Rightarrow>
            (case randint min_width (plus1 max_width) g1 of
              Inl e \<Rightarrow> Inl e
            | Inr (hole_width, g2) \<Rightarrow> Inr ((hole_height, hole_width), g2)))
      else
        (case uniform (fst height_range) (snd height_range) g of
           (fh, g1) \<Rightarrow>
           (case uniform (fst width_range) (snd width_range) g1 of
              (fw, g2) \<Rightarrow>
              Inr ((py_int (fl (fl (of_int height) * fh)),
                    py_int (fl (fl (of_int width) * fw))), g2))))"

text \<open>
  The body of the \<^verbatim>\<open>for _ in range(num_holes)\<close> loop: the dimensions, then
  \<^verbatim>\<open>y1\<close>, then \<^verbatim>\<open>x1\<close>; the hole is the tuple \<^verbatim>\<open>(x1, y1, x2, y2)\<close>.
\<close>

definition sample_hole :: "int \<Rightarrow> int \<Rightarrow> range \<Rightarrow> range \<Rightarrow> rng \<Rightarrow> error + (hole \<times> rng)" where
  "sample_hole height width hr wr g =
     (case calculate_hole_dimensions height width hr wr g of
        Inl e \<Rightarrow> Inl e
      | Inr ((hole_height, hole_width), g1) \<Rightarrow>
      (case randint (IntV 0) (IntV (height - hole_height + 1)) g1 of
        Inl e \<Rightarrow> Inl e
      | Inr (y1, g2) \<Rightarrow>
      (case randint (IntV 0) (IntV (width - hole_width + 1)) g2 of
        Inl e \<Rightarrow> Inl e
      | Inr (x1, g3) \<Rightarrow>
          (let y2 = y1 + hole_height;
               x2 = x1 + hole_width
           in Inr ((x1, y1, x2, y2), g3)))))"

text \<open>The loop itself, with the list it appends to.\<close>

fun holes_loop ::
  "nat \<Rightarrow> int \<Rightarrow> int \<Rightarrow> range \<Rightarrow> range \<Rightarrow> hole list \<Rightarrow> rng \<Rightarrow> error + (hole list \<times> rng)" where
  "holes_loop 0 height width hr wr holes g = Inr (holes, g)"
| "holes_loop (Suc n) height width hr wr holes g =
     (case sample_hole height width hr wr g of
        Inl e \<Rightarrow> Inl e
      | Inr (hole, g') \<Rightarrow> holes_loop n height width hr wr (holes @ [hole]) g')"

text \<open>
  \<^verbatim>\<open>get_params_dependent_on_targets\<close>; \<^verbatim>\<open>height\<close> and \<^verbatim>\<open>width\<close> are
  \<^verbatim>\<open>img.shape[:2]\<close>. \<^verbatim>\<open>range(n)\<close> is empty for \<open>n \<le> 0\<close>.
\<close>

definition get_params_dependent_on_targets ::
  "'a coarse_dropout_scheme \<Rightarrow> int \<Rightarrow> int \<Rightarrow> rng \<Rightarrow> error + (hole list \<times> rng)" where
  "get_params_dependent_on_targets self height width g =
     (case randint (fst (num_holes_range self)) (plus1 (snd (num_holes_range self))) g of
        Inl e \<Rightarrow> Inl e
      | Inr (num_holes, g1) \<Rightarrow>
          holes_loop (nat num_holes) height width
            (hole_height_range self) (hole_width_range self) [] g1)"

section \<open>Reference notions for the properties\<close>

text \<open>
  When \<^verbatim>\<open>validate_range\<close> rejects a range: its low is below the minimum or above its
  high, or its first element is a float and one of the two values is outside \<open>[0, 1]\<close>.
\<close>

definition range_rejected :: "range \<Rightarrow> rat \<Rightarrow> bool" where
  "range_rejected r minimum =
     (val (fst r) < minimum \<or> val (snd r) < val (fst r)
      \<or> (is_float (fst r)
          \<and> (val (fst r) < 0 \<or> 1 < val (fst r) \<or> val (snd r) < 0 \<or> 1 < val (snd r))))"

text \<open>
  A configuration in the range form only (no deprecated maximum), whose integer height
  range starts below zero.
\<close>

definition schema_negative_low :: init_schema where
  "schema_negative_low =
     InitSchema_defaults\<lparr> hole_height_range := (IntV (- 1), IntV 5),
       max_holes := None, max_height := None, max_width := None \<rparr>"


text \<open>The \<open>i\<close>-th raw draw of a random source (zero once the list has run out).\<close>

definition draw_at :: "rng \<Rightarrow> nat \<Rightarrow> rat" where
  "draw_at g i = (if i < length g then g ! i else 0)"

text \<open>
  One dimension of a hole from one raw draw \<open>d\<close>, in the integer branch of the source
  (\<open>as_int\<close>) or in its float branch.
\<close>

definition dimension_of_draw :: "bool \<Rightarrow> int \<Rightarrow> range \<Rightarrow> rat \<Rightarrow> error + int" where
  "dimension_of_draw as_int image_dimension r d =
     (if as_int then
        (case randint (fst r) (plus1 (py_min (snd r) (IntV image_dimension))) [d] of
           Inl e \<Rightarrow> Inl e
         | Inr (v, _) \<Rightarrow> Inr v)
      else Inr (py_int (fl (fl (of_int image_dimension) * fst (uniform (fst r) (snd r) [d])))))"

text \<open>
  One hole from four raw draws, each used for one thing only: \<open>dh\<close> for the height, \<open>dw\<close>
  for the width, \<open>dy\<close> for \<open>y1\<close> and \<open>dx\<close> for \<open>x1\<close>.
\<close>

definition hole_of_draws ::
  "int \<Rightarrow> int \<Rightarrow> range \<Rightarrow> range \<Rightarrow> rat \<Rightarrow> rat \<Rightarrow> rat \<Rightarrow> rat \<Rightarrow> error + hole" where
  "hole_of_draws height width hr wr dh dw dy dx =
     (case dimension_of_draw (is_int (fst hr)) height hr dh of
        Inl e \<Rightarrow> Inl e
      | Inr hh \<Rightarrow>
      (case dimension_of_draw (is_int (fst hr)) width wr dw of
        Inl e \<Rightarrow> Inl e
      | Inr hw \<Rightarrow>
      (case randint (IntV 0) (IntV (height - hh + 1)) [dy] of
        Inl e \<Rightarrow> Inl e
      | Inr (y1, _) \<Rightarrow>
      (case randint (IntV 0) (IntV (width - hw + 1)) [dx] of
        Inl e \<Rightarrow> Inl e
      | Inr (x1, _) \<Rightarrow> Inr (x1, y1, x1 + hw, y1 + hh)))))"

subsection \<open>The sampler as the specification words it\<close>

text \<open>
  Step 2 of the specification's algorithm, for one dimension and by the range's own type:
  an integer-typed range has its upper bound clamped to the image dimension and the size
  drawn from \<open>[low, clamped_high]\<close>; a fraction-typed range has a fraction \<open>f\<close> drawn in
  \<open>[low, high]\<close> and the size \<open>floor(image_dimension * f)\<close>, the product being that of the
  floats.
\<close>

definition spec_dimension :: "int \<Rightarrow> range \<Rightarrow> rng \<Rightarrow> error + (int \<times> rng)" where
  "spec_dimension image_dimension r g =
     (if is_int (fst r) then randint (fst r) (plus1 (py_min (snd r) (IntV image_dimension))) g
      else (case uniform (fst r) (snd r) g of
              (f, g') \<Rightarrow> Inr (\<lfloor>fl (fl (of_int image_dimension) * f)\<rfloor>, g')))"

definition spec_hole_dimensions ::
  "int \<Rightarrow> int \<Rightarrow> range \<Rightarrow> range \<Rightarrow> rng \<Rightarrow> error + ((int \<times> int) \<times> rng)" where
  "spec_hole_dimensions height width hr wr g =
     (case spec_dimension height hr g of
        Inl e \<Rightarrow> Inl e
      | Inr (hh, g1) \<Rightarrow>
      (case spec_dimension width wr g1 of
        Inl e \<Rightarrow> Inl e
      | Inr (hw, g2) \<Rightarrow> Inr ((hh, hw), g2)))"

text \<open>
  Steps 3 and 4 in the draw order the specification gives: per hole its height, its
  width, its \<open>x\<close> coordinate, then its \<open>y\<close> coordinate.
\<close>

definition spec_hole :: "int \<Rightarrow> int \<Rightarrow> range \<Rightarrow> range \<Rightarrow> rng \<Rightarrow> error + (hole \<times> rng)" where
  "spec_hole height width hr wr g =
     (case spec_hole_dimensions height width hr wr g of
        Inl e \<Rightarrow> Inl e
      | Inr ((hh, hw), g1) \<Rightarrow>
      (case randint (IntV 0) (IntV (width - hw + 1)) g1 of
        Inl e \<Rightarrow> Inl e
      | Inr (x1, g2) \<Rightarrow>
      (case randint (IntV 0) (IntV (height - hh + 1)) g2 of
        Inl e \<Rightarrow> Inl e
      | Inr (y1, g3) \<Rightarrow> Inr ((x1, y1, x1 + hw, y1 + hh), g3))))"

fun spec_loop ::
  "nat \<Rightarrow> int \<Rightarrow> int \<Rightarrow> range \<Rightarrow> range \<Rightarrow> hole list \<Rightarrow> rng \<Rightarrow> error + (hole list \<times> rng)" where
  "spec_loop 0 height width hr wr holes g = Inr (holes, g)"
| "spec_loop (Suc n) height width hr wr holes g =
     (case spec_hole height width hr wr g of
        Inl e \<Rightarrow> Inl e
      | Inr (hole, g') \<Rightarrow> spec_loop n height width hr wr (holes @ [hole]) g')"

definition spec_sample ::
  "'a coarse_dropout_scheme \<Rightarrow> int \<Rightarrow> int \<Rightarrow> rng \<Rightarrow> error + (hole list \<times> rng)" where
  "spec_sample self height width g =
     (case randint (fst (num_holes_range self)) (plus1 (snd (num_holes_range self))) g of
        Inl e \<Rightarrow> Inl e
      | Inr (num_holes, g1) \<Rightarrow>
          spec_loop (nat num_holes) height width
            (hole_height_range self) (hole_width_range self) [] g1)"

text \<open>A transform with the given three ranges (and the default fills).\<close>

definition transform :: "range \<Rightarrow> range \<Rightarrow> range \<Rightarrow> coarse_dropout" where
  "transform nr hr wr =
     \<lparr> num_holes_range = nr, hole_height_range = hr, hole_width_range = wr,
       fill_value = Fill (Scalar (IntV 0)), mask_fill_value = None \<rparr>"

section \<open>Properties of the applicator\<close>

text \<open>
  C3: with \<^verbatim>\<open>mask_fill_value = None\<close>, \<^verbatim>\<open>apply_to_mask\<close> returns the mask it was given,
  element for element, whatever the holes and whatever the region overwrite would do.
\<close>

theorem apply_to_mask_None:
  "apply_to_mask cutout mask_buf None holes = mask_buf"
  by (simp add: apply_to_mask_def)

text \<open>
  C2: \<^verbatim>\<open>apply_to_keypoints\<close> returns exactly the keypoints that lie in no hole, in their
  input order, where a point is inside a hole iff \<open>x1 \<le> px < x2\<close> and \<open>y1 \<le> py < y2\<close>.
  So a keypoint at the top-left corner \<open>(x1, y1)\<close> of a hole with \<open>x1 < x2\<close> and
  \<open>y1 < y2\<close> is removed, a keypoint at \<open>(x2, y2)\<close> is kept unless another hole contains
  it, and holes of zero width or height remove nothing.
\<close>

theorem apply_to_keypoints_half_open:
  "apply_to_keypoints kps holes =
     filter (\<lambda>(px, py, rest). \<forall>(x1, y1, x2, y2) \<in> set holes.
        \<not> (of_int x1 \<le> px \<and> px < of_int x2 \<and> of_int y1 \<le> py \<and> py < of_int y2)) kps
   \<and> subseq (apply_to_keypoints kps holes) kps
   \<and> ((x1, y1, x2, y2) \<in> set holes \<and> x1 < x2 \<and> y1 < y2 \<longrightarrow>
        (of_int x1, of_int y1, rest1) \<notin> set (apply_to_keypoints kps holes))
   \<and> ((of_int x2, of_int y2, rest2) \<in> set kps
        \<and> (\<forall>h \<in> set holes - {(x1, y1, x2, y2)}. \<not> keypoint_in_hole (of_int x2, of_int y2, rest2) h) \<longrightarrow>
        (of_int x2, of_int y2, rest2) \<in> set (apply_to_keypoints kps holes))
   \<and> ((\<forall>(a1, b1, a2, b2) \<in> set holes. a1 = a2 \<or> b1 = b2) \<longrightarrow>
        apply_to_keypoints kps holes = kps)"
  apply (intro conjI)
  subgoal by (auto simp: apply_to_keypoints_def list_ex_iff intro!: filter_cong)
  subgoal by (simp add: apply_to_keypoints_def)
  subgoal by (auto simp: apply_to_keypoints_def list_ex_iff intro!: bexI[of _ "(x1, y1, x2, y2)"])
  subgoal by (auto simp: apply_to_keypoints_def list_ex_iff)
  subgoal by (auto simp: apply_to_keypoints_def list_ex_iff filter_id_conv; force)
  done

text \<open>The keypoints of the spec's scenario, and the two corners, against the hole \<open>(2, 2, 6, 6)\<close>.\<close>

theorem apply_to_keypoints_half_open_witness:
  "apply_to_keypoints [(1, 1, ()), (3, 3, ()), (7, 7, ()), (2, 2, ()), (6, 6, ())] [(2, 2, 6, 6)]
     = [(1, 1, ()), (7, 7, ()), (6, 6, ())]"
  using apply_to_keypoints_half_open
    [of "[(1, 1, ()), (3, 3, ()), (7, 7, ()), (2, 2, ()), (6, 6, ())]" "[(2, 2, 6, 6)]" 2 2 6 6 "()" "()"]
  by simp

section \<open>Properties of the schema\<close>

lemma validate_range_isl:
  "isl (validate_range r name minimum) = range_rejected r minimum"
  by (auto simp: validate_range_def range_rejected_def)

lemma validate_range_Inr: "validate_range r name minimum = Inr u \<longleftrightarrow> \<not> range_rejected r minimum"
  by (auto simp: validate_range_def range_rejected_def)

text \<open>
  C8, as amended: the validator raises exactly when one of the three ranges, after the
  deprecated fields have been folded in, is rejected: its low is below its minimum (1 for
  \<^verbatim>\<open>num_holes_range\<close>, 0 for the two size ranges) or above its high, or its first element
  is a float and one of its values is outside \<open>[0, 1]\<close>. Otherwise it returns the schema
  with the ranges so updated.
\<close>

theorem check_rejects_iff:
  "isl (check_holes_and_dimensions s) =
     (range_rejected (num_holes_range (update_ranges s)) 1
      \<or> range_rejected (hole_height_range (update_ranges s)) 0
      \<or> range_rejected (hole_width_range (update_ranges s)) 0)
   \<and> (\<not> isl (check_holes_and_dimensions s)
        \<longrightarrow> check_holes_and_dimensions s = Inr (update_ranges s))"
proof -
  let ?s = "update_ranges s"
  show ?thesis
  proof (cases "range_rejected (num_holes_range ?s) 1")
    case True
    then have "isl (validate_range (num_holes_range ?s) ''num_holes_range'' 1)"
      by (simp add: validate_range_isl)
    with True show ?thesis
      by (auto simp: check_holes_and_dimensions_def Let_def split: sum.splits)
  next
    case n: False
    then have vn: "validate_range (num_holes_range ?s) ''num_holes_range'' 1 = Inr ()"
      by (simp add: validate_range_Inr)
    show ?thesis
    proof (cases "range_rejected (hole_height_range ?s) 0")
      case True
      then have "isl (validate_range (hole_height_range ?s) ''hole_height_range'' 0)"
        by (simp add: validate_range_isl)
      with True vn show ?thesis
        by (auto simp: check_holes_and_dimensions_def Let_def split: sum.splits)
    next
      case h: False
      then have vh: "validate_range (hole_height_range ?s) ''hole_height_range'' 0 = Inr ()"
        by (simp add: validate_range_Inr)
      show ?thesis
      proof (cases "range_rejected (hole_width_range ?s) 0")
        case True
        then have "isl (validate_range (hole_width_range ?s) ''hole_width_range'' 0)"
          by (simp add: validate_range_isl)
        with True vn vh show ?thesis
          by (auto simp: check_holes_and_dimensions_def Let_def split: sum.splits)
      next
        case False
        then have "validate_range (hole_width_range ?s) ''hole_width_range'' 0 = Inr ()"
          by (simp add: validate_range_Inr)
        with False n h vn vh show ?thesis
          by (simp add: check_holes_and_dimensions_def Let_def)
      qed
    qed
  qed
qed

text \<open>The defaults pass, and come back with the ranges \<open>(8, 8)\<close> of the deprecated maxima.\<close>

theorem check_rejects_iff_witness:
  "check_holes_and_dimensions InitSchema_defaults = Inr (update_ranges InitSchema_defaults)
   \<and> num_holes_range (update_ranges InitSchema_defaults) = (IntV 8, IntV 8)"
  using check_rejects_iff [of InitSchema_defaults]
  by (simp add: range_rejected_def update_ranges_def update_range_def InitSchema_defaults_def)

text \<open>
  C8 as stated fails: the integer height range \<open>(-1, 5)\<close> is rejected although no low
  exceeds its high, no value is a fraction and the hole count starts at 1.
\<close>

theorem check_rejects_negative_low:
  "isl (check_holes_and_dimensions schema_negative_low)
   \<and> update_ranges schema_negative_low = schema_negative_low
   \<and> \<not> val (snd (num_holes_range schema_negative_low)) < val (fst (num_holes_range schema_negative_low))
   \<and> \<not> val (snd (hole_height_range schema_negative_low)) < val (fst (hole_height_range schema_negative_low))
   \<and> \<not> val (snd (hole_width_range schema_negative_low)) < val (fst (hole_width_range schema_negative_low))
   \<and> \<not> is_float (fst (num_holes_range schema_negative_low))
   \<and> \<not> is_float (snd (num_holes_range schema_negative_low))
   \<and> \<not> is_float (fst (hole_height_range schema_negative_low))
   \<and> \<not> is_float (snd (hole_height_range schema_negative_low))
   \<and> \<not> is_float (fst (hole_width_range schema_negative_low))
   \<and> \<not> is_float (snd (hole_width_range schema_negative_low))
   \<and> \<not> val (fst (num_holes_range schema_negative_low)) < 1"
  by (simp add: schema_negative_low_def InitSchema_defaults_def check_holes_and_dimensions_def
      update_ranges_def update_range_def validate_range_def)

text \<open>
  C9: where the deprecated maximum is set (and each of the three is 8 by default), the
  range given is dropped and the range becomes \<open>(min or max, max)\<close>: its low is the
  deprecated minimum when that is set and not zero, and the maximum otherwise; so a
  minimum of zero gives \<open>(max, max)\<close>, not \<open>(0, max)\<close>.
\<close>

theorem update_ranges_legacy:
  "(max_holes s = Some mx \<longrightarrow>
      num_holes_range (update_ranges s)
        = ((case min_holes s of None \<Rightarrow> mx | Some m \<Rightarrow> if val m = 0 then mx else m), mx))
   \<and> (max_height s = Some mx \<longrightarrow>
      hole_height_range (update_ranges s)
        = ((case min_height s of None \<Rightarrow> mx | Some m \<Rightarrow> if val m = 0 then mx else m), mx))
   \<and> (max_width s = Some mx \<longrightarrow>
      hole_width_range (update_ranges s)
        = ((case min_width s of None \<Rightarrow> mx | Some m \<Rightarrow> if val m = 0 then mx else m), mx))
   \<and> (max_holes s = Some mx \<and> min_holes s = Some (IntV 0) \<longrightarrow>
      num_holes_range (update_ranges s) = (mx, mx))
   \<and> (max_height s = Some mx \<and> min_height s \<in> {Some (IntV 0), Some (FloatV 0)} \<longrightarrow>
      hole_height_range (update_ranges s) = (mx, mx))
   \<and> (max_width s = Some mx \<and> min_width s \<in> {Some (IntV 0), Some (FloatV 0)} \<longrightarrow>
      hole_width_range (update_ranges s) = (mx, mx))
   \<and> max_holes InitSchema_defaults = Some (IntV 8)
   \<and> max_height InitSchema_defaults = Some (IntV 8)
   \<and> max_width InitSchema_defaults = Some (IntV 8)"
proof -
  have low: "py_or m mx = (case m of None \<Rightarrow> mx | Some v \<Rightarrow> if val v = 0 then mx else v)" for m
  proof (cases m)
    case None
    then show ?thesis by simp
  next
    case (Some v)
    then show ?thesis by (cases v) simp_all
  qed
  show ?thesis
    by (auto simp: update_ranges_def update_range_def InitSchema_defaults_def low)
qed

text \<open>
  Beside the default maximum of 8 holes and the given range \<open>(2, 3)\<close>: a minimum of 2 gives
  \<open>(2, 8)\<close>, a minimum of 0 gives \<open>(8, 8)\<close>, and no minimum gives \<open>(8, 8)\<close>.
\<close>

theorem update_ranges_legacy_witness:
  "num_holes_range
     (update_ranges
        (InitSchema_defaults\<lparr> num_holes_range := (IntV 2, IntV 3), min_holes := Some (IntV 2) \<rparr>))
     = (IntV 2, IntV 8)
   \<and> num_holes_range
     (update_ranges
        (InitSchema_defaults\<lparr> num_holes_range := (IntV 2, IntV 3), min_holes := Some (IntV 0) \<rparr>))
     = (IntV 8, IntV 8)
   \<and> num_holes_range
     (update_ranges (InitSchema_defaults\<lparr> num_holes_range := (IntV 2, IntV 3) \<rparr>))
     = (IntV 8, IntV 8)"
  using update_ranges_legacy
    [of "InitSchema_defaults\<lparr> num_holes_range := (IntV 2, IntV 3), min_holes := Some (IntV 2) \<rparr>"
        "IntV 8"]
    update_ranges_legacy
    [of "InitSchema_defaults\<lparr> num_holes_range := (IntV 2, IntV 3), min_holes := Some (IntV 0) \<rparr>"
        "IntV 8"]
    update_ranges_legacy
    [of "InitSchema_defaults\<lparr> num_holes_range := (IntV 2, IntV 3) \<rparr>" "IntV 8"]
  by (simp add: InitSchema_defaults_def)

section \<open>Properties of the hole sampler\<close>

subsection \<open>The random source\<close>

lemma next_unit_bounds: "0 \<le> fst (next_unit g) \<and> fst (next_unit g) < 1"
  by (cases g) (auto simp: frac_lt_1)

lemma scaled_floor_bounds:
  fixes u :: rat and n :: int
  assumes "0 \<le> u" "u < 1" "0 < n"
  shows "0 \<le> \<lfloor>u * of_int n\<rfloor> \<and> \<lfloor>u * of_int n\<rfloor> < n"
proof -
  have "0 \<le> u * of_int n" using assms by simp
  moreover have "u * of_int n < of_int n" using assms by simp
  ultimately show ?thesis by (simp add: floor_less_iff)
qed

lemma randint_Inr:
  assumes "randint low high g = Inr (v, g')"
  shows "to_int low \<le> v \<and> v < to_int high \<and> g' = snd (next_unit g)"
proof -
  let ?u = "fst (next_unit g)"
  from assms have lt: "to_int low < to_int high"
    by (auto simp: randint_def Let_def split: if_splits)
  with assms have v: "v = to_int low + \<lfloor>?u * of_int (to_int high - to_int low)\<rfloor>"
    and g': "g' = snd (next_unit g)"
    by (auto simp: randint_def Let_def split: if_splits prod.splits)
  from scaled_floor_bounds[of ?u "to_int high - to_int low"] next_unit_bounds[of g] lt
  have "0 \<le> \<lfloor>?u * of_int (to_int high - to_int low)\<rfloor>
        \<and> \<lfloor>?u * of_int (to_int high - to_int low)\<rfloor> < to_int high - to_int low"
    by simp
  with v g' show ?thesis by linarith
qed

lemma holes_loop_length:
  "holes_loop n H W hr wr acc g = Inr (holes, g') \<Longrightarrow> length holes = length acc + n"
proof (induction n arbitrary: acc g)
  case 0
  then show ?case by simp
next
  case (Suc n)
  from Suc.prems obtain h g1 where
    l: "holes_loop n H W hr wr (acc @ [h]) g1 = Inr (holes, g')"
    by (auto split: sum.splits)
  from Suc.IH[OF l] show ?case by simp
qed

subsection \<open>Worked examples\<close>

text \<open>
  Binary64 at work: the float \<^verbatim>\<open>0.7\<close>; \<^verbatim>\<open>10 * 0.7\<close> is \<^verbatim>\<open>7.0\<close> and \<^verbatim>\<open>int(100 * 0.29)\<close> is 28,
  where the exact products of the floats are below 7 and the exact product of the
  decimals is 29; \<^verbatim>\<open>0.1 + 0.2\<close> is \<^verbatim>\<open>0.30000000000000004\<close>.
\<close>

lemma binary64_examples:
  "fl (7 / 10) = 3152519739159347 / 4503599627370496"
  "fl (fl 10 * fl (7 / 10)) = 7"
  "py_int (fl (fl 100 * fl (29 / 100))) = 28"
  "fl (fl (1 / 10) + fl (2 / 10)) = 1351079888211149 / 4503599627370496"
  by code_simp+

text \<open>The fraction ranges \<^verbatim>\<open>(0.7, 0.7)\<close> and \<^verbatim>\<open>(0.29, 0.29)\<close> on an image 10 high and 100 wide.\<close>

lemma rounded_product_example:
  "calculate_hole_dimensions 10 100
     (FloatV (fl (7 / 10)), FloatV (fl (7 / 10))) (FloatV (fl (29 / 100)), FloatV (fl (29 / 100)))
     [1/3, 2/3]
   = Inr ((7, 28), [])"
  by code_simp

lemma transform_sel [simp]:
  "num_holes_range (transform nr hr wr) = nr"
  "hole_height_range (transform nr hr wr) = hr"
  "hole_width_range (transform nr hr wr) = wr"
  by (simp_all add: transform_def)

text \<open>
  An image 20 high and 30 wide, one hole, heights from \<open>(2, 5)\<close> and widths from \<open>(3, 9)\<close>, and
  the draws \<open>0\<close> (count), \<open>1/2\<close>, \<open>3/4\<close>, \<open>1/3\<close>, \<open>1/5\<close>: by the source, and by the order of
  the specification.
\<close>

lemma sample_example:
  "get_params_dependent_on_targets
     (transform (IntV 1, IntV 1) (IntV 2, IntV 5) (IntV 3, IntV 9)) 20 30 [0, 1/2, 3/4, 1/3, 1/5]
   = Inr ([(4, 5, 12, 9)], [])"
  by code_simp

lemma spec_sample_example:
  "spec_sample
     (transform (IntV 1, IntV 1) (IntV 2, IntV 5) (IntV 3, IntV 9)) 20 30 [0, 1/2, 3/4, 1/3, 1/5]
   = Inr ([(7, 3, 15, 7)], [])"
  by code_simp

text \<open>Three holes of size 4 by 4, from the count range \<open>(2, 3)\<close> and a first draw of \<open>9/10\<close>.\<close>

lemma three_holes_example:
  "get_params_dependent_on_targets
     (transform (IntV 2, IntV 3) (IntV 4, IntV 4) (IntV 4, IntV 4)) 10 10 [9/10]
   = Inr ([(0, 0, 4, 4), (0, 0, 4, 4), (0, 0, 4, 4)], [])"
  by code_simp

subsection \<open>The number of holes\<close>

text \<open>
  C4: for an integer range \<open>(lo, hi)\<close> with \<open>0 \<le> lo\<close>, the number of holes returned lies in
  \<open>[lo, hi]\<close>; it is the first draw, and it equals \<open>k\<close> exactly when the unit point of
  that draw falls into the \<open>k\<close>-th of the \<open>hi - lo + 1\<close> equal parts of the unit interval:
  every count has the same share of the draws.
\<close>

theorem hole_count_in_range:
  assumes nr: "num_holes_range self = (IntV lo, IntV hi)" and lo: "0 \<le> lo"
    and r: "get_params_dependent_on_targets self height width g = Inr (holes, g')"
  shows "lo \<le> int (length holes) \<and> int (length holes) \<le> hi
         \<and> (\<forall>k. int (length holes) = k \<longleftrightarrow>
                of_int (k - lo) \<le> fst (next_unit g) * of_int (hi - lo + 1)
                \<and> fst (next_unit g) * of_int (hi - lo + 1) < of_int (k - lo + 1))"
proof -
  from r nr obtain num g1 where
    d: "randint (IntV lo) (IntV (hi + 1)) g = Inr (num, g1)" and
    l: "holes_loop (nat num) height width (hole_height_range self) (hole_width_range self) [] g1
          = Inr (holes, g')"
    by (auto simp: get_params_dependent_on_targets_def split: sum.splits)
  from randint_Inr[OF d] have b: "lo \<le> num" "num \<le> hi" by simp_all
  from holes_loop_length[OF l] b lo have len: "int (length holes) = num" by simp
  have span: "to_int (IntV (hi + 1)) - to_int (IntV lo) = hi - lo + 1" by simp
  from d have "num = to_int (IntV lo)
      + \<lfloor>fst (next_unit g) * of_int (to_int (IntV (hi + 1)) - to_int (IntV lo))\<rfloor>"
    unfolding randint_def Let_def by (auto split: if_splits prod.splits)
  then have num: "num = lo + \<lfloor>fst (next_unit g) * of_int (hi - lo + 1)\<rfloor>"
    unfolding span by simp
  have "num = k \<longleftrightarrow>
          of_int (k - lo) \<le> fst (next_unit g) * of_int (hi - lo + 1)
          \<and> fst (next_unit g) * of_int (hi - lo + 1) < of_int (k - lo + 1)" for k
  proof -
    have "num = k \<longleftrightarrow> \<lfloor>fst (next_unit g) * of_int (hi - lo + 1)\<rfloor> = k - lo"
      using num by auto
    also have "\<dots> \<longleftrightarrow> of_int (k - lo) \<le> fst (next_unit g) * of_int (hi - lo + 1)
          \<and> fst (next_unit g) * of_int (hi - lo + 1) < of_int (k - lo) + 1"
      by (rule floor_eq_iff)
    finally show ?thesis by simp
  qed
  with len b show ?thesis by simp
qed

text \<open>The three-hole example: 3 lies in \<open>[2, 3]\<close>.\<close>

theorem hole_count_in_range_witness:
  "get_params_dependent_on_targets
     (transform (IntV 2, IntV 3) (IntV 4, IntV 4) (IntV 4, IntV 4)) 10 10 [9/10]
   = Inr ([(0, 0, 4, 4), (0, 0, 4, 4), (0, 0, 4, 4)], [])
   \<and> 2 \<le> int (length [(0::int, 0::int, 4::int, 4::int), (0, 0, 4, 4), (0, 0, 4, 4)])
   \<and> int (length [(0::int, 0::int, 4::int, 4::int), (0, 0, 4, 4), (0, 0, 4, 4)]) \<le> 3"
  using hole_count_in_range
    [of "transform (IntV 2, IntV 3) (IntV 4, IntV 4) (IntV 4, IntV 4)" 2 3 10 10 "[9/10]",
     OF _ _ three_holes_example]
  by (simp add: three_holes_example)

subsection \<open>The order of the draws\<close>

lemma next_unit_draw: "next_unit g = (frac (draw_at g 0), drop 1 g)"
  by (cases g) (simp_all add: draw_at_def)

lemma draw_at_drop [simp]: "draw_at (drop k g) i = draw_at g (k + i)"
  by (auto simp: draw_at_def)

lemma draw_at_simps [simp]:
  "draw_at [] i = 0"
  "draw_at (x # xs) 0 = x"
  "draw_at (x # xs) (Suc i) = draw_at xs i"
  by (simp_all add: draw_at_def)

lemma randint_single:
  "randint lo hi g = Inr (v, g') \<longleftrightarrow> randint lo hi [draw_at g 0] = Inr (v, []) \<and> g' = drop 1 g"
  by (auto simp: randint_def Let_def next_unit_draw draw_at_def)

lemma uniform_single: "uniform lo hi g = (fst (uniform lo hi [draw_at g 0]), drop 1 g)"
  by (simp add: uniform_def next_unit_draw Let_def)

lemma dimension_of_draw_int:
  "dimension_of_draw True D r d = Inr v \<longleftrightarrow>
     randint (fst r) (plus1 (py_min (snd r) (IntV D))) [d] = Inr (v, [])"
proof -
  have "ga = []" if "randint lo hi [d] = Inr (v, ga)" for lo hi ga
    using randint_single[of lo hi "[d]" v ga] that by simp
  then show ?thesis
    by (auto simp: dimension_of_draw_def split: sum.splits prod.splits)
qed

lemma calc_two_draws:
  "calculate_hole_dimensions H W hr wr g = Inr ((hh, hw), g') \<longleftrightarrow>
     dimension_of_draw (is_int (fst hr)) H hr (draw_at g 0) = Inr hh
     \<and> dimension_of_draw (is_int (fst hr)) W wr (draw_at g 1) = Inr hw
     \<and> g' = drop 2 g"
proof (cases "is_int (fst hr)")
  case True
  let ?a = "fst hr" and ?b = "plus1 (py_min (snd hr) (IntV H))"
  let ?c = "fst wr" and ?d = "plus1 (py_min (snd wr) (IntV W))"
  have "calculate_hole_dimensions H W hr wr g = Inr ((hh, hw), g') \<longleftrightarrow>
      (\<exists>g1. randint ?a ?b g = Inr (hh, g1) \<and> randint ?c ?d g1 = Inr (hw, g'))"
    using True
    by (auto simp: calculate_hole_dimensions_def Let_def split: sum.splits prod.splits)
  also have "\<dots> \<longleftrightarrow>
      randint ?a ?b [draw_at g 0] = Inr (hh, []) \<and> randint ?c ?d [draw_at g 1] = Inr (hw, [])
      \<and> g' = drop 2 g"
    by (subst randint_single, subst (2) randint_single) (auto simp: eval_nat_numeral)
  finally show ?thesis using True by (simp add: dimension_of_draw_int)
next
  case False
  have "calculate_hole_dimensions H W hr wr g
      = Inr ((py_int (fl (fl (of_int H) * fst (uniform (fst hr) (snd hr) [draw_at g 0]))),
              py_int (fl (fl (of_int W) * fst (uniform (fst wr) (snd wr) [draw_at g 1])))),
             drop 2 g)"
  proof -
    have u0: "uniform (fst hr) (snd hr) g
        = (fst (uniform (fst hr) (snd hr) [draw_at g 0]), drop 1 g)"
      by (rule uniform_single)
    have "uniform (fst wr) (snd wr) (drop 1 g)
        = (fst (uniform (fst wr) (snd wr) [draw_at (drop 1 g) 0]), drop 1 (drop 1 g))"
      by (rule uniform_single)
    then have u1: "uniform (fst wr) (snd wr) (drop 1 g)
        = (fst (uniform (fst wr) (snd wr) [draw_at g 1]), drop 2 g)"
      by (simp add: eval_nat_numeral)
    from False show ?thesis
      unfolding calculate_hole_dimensions_def u0 prod.case u1 by simp
  qed
  with False show ?thesis by (auto simp: dimension_of_draw_def)
qed

lemma sample_hole_four_draws:
  "sample_hole H W hr wr g = Inr (h, g') \<longleftrightarrow>
     hole_of_draws H W hr wr (draw_at g 0) (draw_at g 1) (draw_at g 2) (draw_at g 3) = Inr h
     \<and> g' = drop 4 g"
proof -
  have L: "sample_hole H W hr wr g = Inr (h, g') \<longleftrightarrow>
      (\<exists>hh hw g1 y1 g2 x1.
         calculate_hole_dimensions H W hr wr g = Inr ((hh, hw), g1)
         \<and> randint (IntV 0) (IntV (H - hh + 1)) g1 = Inr (y1, g2)
         \<and> randint (IntV 0) (IntV (W - hw + 1)) g2 = Inr (x1, g')
         \<and> h = (x1, y1, x1 + hw, y1 + hh))"
    by (auto simp: sample_hole_def Let_def split: sum.splits prod.splits)
  have R: "hole_of_draws H W hr wr dh dw dy dx = Inr h \<longleftrightarrow>
      (\<exists>hh hw y1 x1.
         dimension_of_draw (is_int (fst hr)) H hr dh = Inr hh
         \<and> dimension_of_draw (is_int (fst hr)) W wr dw = Inr hw
         \<and> randint (IntV 0) (IntV (H - hh + 1)) [dy] = Inr (y1, [])
         \<and> randint (IntV 0) (IntV (W - hw + 1)) [dx] = Inr (x1, [])
         \<and> h = (x1, y1, x1 + hw, y1 + hh))" for dh dw dy dx
  proof -
    have r: "randint lo hi [x] = Inr (v, ga) \<Longrightarrow> ga = []" for lo hi x v ga
      using randint_single[of lo hi "[x]" v ga] by simp
    show ?thesis
      by (auto simp: hole_of_draws_def split: sum.splits prod.splits dest: r)
  qed
  show ?thesis
    unfolding L R
    apply (subst calc_two_draws)
    apply (subst randint_single)
    apply (subst (2) randint_single)
    apply (auto simp: eval_nat_numeral)
    done
qed

lemma holes_loop_draws:
  "holes_loop n H W hr wr acc g = Inr (holes, g') \<Longrightarrow>
     g' = drop (4 * n) g \<and> length holes = length acc + n \<and> take (length acc) holes = acc
     \<and> (\<forall>i<n. hole_of_draws H W hr wr
            (draw_at g (4 * i)) (draw_at g (4 * i + 1)) (draw_at g (4 * i + 2)) (draw_at g (4 * i + 3))
          = Inr (holes ! (length acc + i)))"
proof (induction n arbitrary: acc g)
  case 0
  then show ?case by simp
next
  case (Suc n)
  from Suc.prems obtain h g1 where
    s: "sample_hole H W hr wr g = Inr (h, g1)" and
    l: "holes_loop n H W hr wr (acc @ [h]) g1 = Inr (holes, g')"
    by (auto split: sum.splits)
  from s have h: "hole_of_draws H W hr wr (draw_at g 0) (draw_at g 1) (draw_at g 2) (draw_at g 3) = Inr h"
    and g1: "g1 = drop 4 g"
    by (simp_all add: sample_hole_four_draws)
  from Suc.IH[OF l] have
    g': "g' = drop (4 * n) g1" and
    len: "length holes = length acc + 1 + n" and
    tk: "take (length acc + 1) holes = acc @ [h]" and
    rest: "\<forall>i<n. hole_of_draws H W hr wr
            (draw_at g1 (4 * i)) (draw_at g1 (4 * i + 1)) (draw_at g1 (4 * i + 2)) (draw_at g1 (4 * i + 3))
          = Inr (holes ! (length acc + 1 + i))"
    by simp_all
  from tk have "take (length acc) (take (length acc + 1) holes) = take (length acc) (acc @ [h])"
    by simp
  then have tk': "take (length acc) holes = acc" by (simp add: min_def)
  from tk len have "holes ! length acc = (acc @ [h]) ! length acc"
    by (metis add.commute less_add_one nth_take plus_1_eq_Suc)
  then have at: "holes ! length acc = h" by simp
  have "hole_of_draws H W hr wr
            (draw_at g (4 * i)) (draw_at g (4 * i + 1)) (draw_at g (4 * i + 2)) (draw_at g (4 * i + 3))
          = Inr (holes ! (length acc + i))" if "i < Suc n" for i
  proof (cases i)
    case 0
    with h at show ?thesis by (simp add: numeral_2_eq_2)
  next
    case (Suc j)
    with that have "j < n" by simp
    with rest have "hole_of_draws H W hr wr
            (draw_at g1 (4 * j)) (draw_at g1 (4 * j + 1)) (draw_at g1 (4 * j + 2)) (draw_at g1 (4 * j + 3))
          = Inr (holes ! (length acc + 1 + j))" by blast
    then show ?thesis unfolding g1 Suc by (simp add: add.assoc)
  qed
  with g' g1 len tk' show ?case by (simp add: add.commute)
qed

lemma sampler_draws:
  assumes "get_params_dependent_on_targets self H W g = Inr (holes, g')"
  shows "(\<exists>num. randint (fst (num_holes_range self)) (plus1 (snd (num_holes_range self)))
              [draw_at g 0] = Inr (num, []) \<and> length holes = nat num)
         \<and> (\<forall>i<length holes. hole_of_draws H W (hole_height_range self) (hole_width_range self)
               (draw_at g (4 * i + 1)) (draw_at g (4 * i + 2))
               (draw_at g (4 * i + 3)) (draw_at g (4 * i + 4))
             = Inr (holes ! i))
         \<and> g' = drop (4 * length holes + 1) g"
proof -
  from assms obtain num g1 where
    d: "randint (fst (num_holes_range self)) (plus1 (snd (num_holes_range self))) g = Inr (num, g1)"
    and l: "holes_loop (nat num) H W (hole_height_range self) (hole_width_range self) [] g1
       = Inr (holes, g')"
    by (auto simp: get_params_dependent_on_targets_def split: sum.splits)
  from d have d0: "randint (fst (num_holes_range self)) (plus1 (snd (num_holes_range self)))
      [draw_at g 0] = Inr (num, [])" and g1: "g1 = drop 1 g"
    using randint_single by blast+
  from holes_loop_draws[OF l] have
    g': "g' = drop (4 * nat num) g1" and len: "length holes = nat num" and
    each: "\<forall>i<nat num. hole_of_draws H W (hole_height_range self) (hole_width_range self)
            (draw_at g1 (4 * i)) (draw_at g1 (4 * i + 1)) (draw_at g1 (4 * i + 2)) (draw_at g1 (4 * i + 3))
          = Inr (holes ! i)"
    by simp_all
  have "hole_of_draws H W (hole_height_range self) (hole_width_range self)
               (draw_at g (4 * i + 1)) (draw_at g (4 * i + 2))
               (draw_at g (4 * i + 3)) (draw_at g (4 * i + 4))
             = Inr (holes ! i)" if "i < length holes" for i
  proof -
    from that len each have "hole_of_draws H W (hole_height_range self) (hole_width_range self)
            (draw_at g1 (4 * i)) (draw_at g1 (4 * i + 1)) (draw_at g1 (4 * i + 2)) (draw_at g1 (4 * i + 3))
          = Inr (holes ! i)" by simp
    moreover have idx: "1 + 4 * i = 4 * i + 1" "1 + (4 * i + 1) = 4 * i + 2"
      "1 + (4 * i + 2) = 4 * i + 3" "1 + (4 * i + 3) = 4 * i + 4" by simp_all
    ultimately show ?thesis unfolding g1 draw_at_drop idx by blast
  qed
  with d0 len g' g1 show ?thesis by (auto simp: add.commute)
qed

text \<open>
  C6, as amended: the sampler is a function of the image dimensions, the ranges and the
  random source, and it consumes the draws in the order: the hole count first, then for
  each hole, in generation order, its height, its width, its \<open>y\<close> coordinate, then its \<open>x\<close>
  coordinate. So the \<open>i\<close>-th hole is the hole of the draws \<open>4i+1\<close> (height), \<open>4i+2\<close> (width),
  \<open>4i+3\<close> (\<open>y1\<close>) and \<open>4i+4\<close> (\<open>x1\<close>), the source is left after \<open>4n+1\<close> draws, and two
  runs that agree on these draws return the same holes.
\<close>

theorem draws_in_order:
  assumes r: "get_params_dependent_on_targets self H W g = Inr (holes, g')"
  shows "(\<exists>num. randint (fst (num_holes_range self)) (plus1 (snd (num_holes_range self)))
              [draw_at g 0] = Inr (num, []) \<and> length holes = nat num)
         \<and> (\<forall>i<length holes. hole_of_draws H W (hole_height_range self) (hole_width_range self)
               (draw_at g (4 * i + 1)) (draw_at g (4 * i + 2))
               (draw_at g (4 * i + 3)) (draw_at g (4 * i + 4))
             = Inr (holes ! i))
         \<and> g' = drop (4 * length holes + 1) g
         \<and> (\<forall>g2 holes2 g2'.
               get_params_dependent_on_targets self H W g2 = Inr (holes2, g2')
               \<and> (\<forall>j \<le> 4 * length holes. draw_at g2 j = draw_at g j)
               \<longrightarrow> holes2 = holes)"
proof -
  note A = sampler_draws[OF r]
  have "holes2 = holes"
    if r2: "get_params_dependent_on_targets self H W g2 = Inr (holes2, g2')"
      and same: "\<forall>j \<le> 4 * length holes. draw_at g2 j = draw_at g j"
    for g2 holes2 g2'
  proof -
    note B = sampler_draws[OF r2]
    from same have "draw_at g2 0 = draw_at g 0" by simp
    with A B have len: "length holes2 = length holes" by auto
    show ?thesis
    proof (rule nth_equalityI[OF len])
      fix i assume i: "i < length holes2"
      with len have "4 * i + 1 \<le> 4 * length holes" "4 * i + 2 \<le> 4 * length holes"
        "4 * i + 3 \<le> 4 * length holes" "4 * i + 4 \<le> 4 * length holes" by simp_all
      with same have "draw_at g2 (4 * i + 1) = draw_at g (4 * i + 1)"
        "draw_at g2 (4 * i + 2) = draw_at g (4 * i + 2)"
        "draw_at g2 (4 * i + 3) = draw_at g (4 * i + 3)"
        "draw_at g2 (4 * i + 4) = draw_at g (4 * i + 4)" by blast+
      moreover from A i len have "hole_of_draws H W (hole_height_range self) (hole_width_range self)
               (draw_at g (4 * i + 1)) (draw_at g (4 * i + 2))
               (draw_at g (4 * i + 3)) (draw_at g (4 * i + 4)) = Inr (holes ! i)" by simp
      moreover from B i have "hole_of_draws H W (hole_height_range self) (hole_width_range self)
               (draw_at g2 (4 * i + 1)) (draw_at g2 (4 * i + 2))
               (draw_at g2 (4 * i + 3)) (draw_at g2 (4 * i + 4)) = Inr (holes2 ! i)" by simp
      ultimately show "holes2 ! i = holes ! i" by simp
    qed
  qed
  with A show ?thesis by blast
qed

text \<open>
  The one-hole example: the draws \<open>1/2\<close> and \<open>3/4\<close> give the height 4 and the width 8, and the
  draws \<open>1/3\<close> and \<open>1/5\<close> place \<open>y1\<close> at 5 and \<open>x1\<close> at 4.
\<close>

theorem draws_in_order_witness:
  "hole_of_draws 20 30 (IntV 2, IntV 5) (IntV 3, IntV 9) (1/2) (3/4) (1/3) (1/5) = Inr (4, 5, 12, 9)
   \<and> drop 5 [0, 1/2, 3/4, 1/3, 1/5 :: rat] = []"
  using draws_in_order [OF sample_example]
  by (simp add: eval_nat_numeral)

text \<open>
  C6 as stated fails in the order of the last two draws: on the one-hole example the
  source puts the hole at \<open>(x1, y1) = (4, 5)\<close>, and the order of the specification
  (\<open>x\<close>, then \<open>y\<close>) puts it at \<open>(7, 3)\<close>.
\<close>

theorem y_drawn_before_x:
  "get_params_dependent_on_targets
     (transform (IntV 1, IntV 1) (IntV 2, IntV 5) (IntV 3, IntV 9)) 20 30 [0, 1/2, 3/4, 1/3, 1/5]
     = Inr ([(4, 5, 12, 9)], [])
   \<and> spec_sample
     (transform (IntV 1, IntV 1) (IntV 2, IntV 5) (IntV 3, IntV 9)) 20 30 [0, 1/2, 3/4, 1/3, 1/5]
     = Inr ([(7, 3, 15, 7)], [])"
  using sample_example spec_sample_example by simp

subsection \<open>One dispatch for both dimensions\<close>

text \<open>
  \<^verbatim>\<open>calculate_hole_dimensions\<close> chooses its branch once, by the type of the first element
  of the height range, and computes the width in the same branch. Where the two ranges
  differ in type, the width is not computed by its own range's type; the four results
  below are of this one defect.
\<close>

text \<open>
  C1 fails at an accepted configuration: the fraction height range \<^verbatim>\<open>(0.25, 0.75)\<close> and the
  integer width range \<open>(3, 5)\<close> on an image of height 16 and width 12 (ranges the validator
  accepts, lows within the image). The width range is read as fractions and not clamped:
  the width drawn is \<open>int(12 * 4.0) = 48\<close>, the interval \<open>[0, 12 - 48]\<close> of \<open>x1\<close> is empty, and
  the sampler raises; by the width range's own type the width is \<open>3 + floor(5 / 2) = 4\<close> and
  a hole is produced.
\<close>

theorem corner_interval_empty:
  "get_params_dependent_on_targets
     (transform (IntV 1, IntV 1) (FloatV (1/4), FloatV (3/4)) (IntV 3, IntV 5))
     16 12 [1/2, 1/2, 1/2, 1/2, 1/2]
     = Inl LowGeHigh
   \<and> calculate_hole_dimensions 16 12 (FloatV (1/4), FloatV (3/4)) (IntV 3, IntV 5) [1/2, 1/2, 1/2, 1/2]
     = Inr ((8, 48), [1/2, 1/2])
   \<and> spec_hole_dimensions 16 12 (FloatV (1/4), FloatV (3/4)) (IntV 3, IntV 5) [1/2, 1/2, 1/2, 1/2]
     = Inr ((8, 4), [1/2, 1/2])
   \<and> validate_range (IntV 1, IntV 1) ''num_holes_range'' 1 = Inr ()
   \<and> validate_range (FloatV (1/4), FloatV (3/4)) ''hole_height_range'' 0 = Inr ()
   \<and> validate_range (IntV 3, IntV 5) ''hole_width_range'' 0 = Inr ()
   \<and> to_int (IntV 3) \<le> 12
   \<and> \<not> (0::int) < 12 - 48 + 1"
  by code_simp

text \<open>
  C5 fails where the types differ: with the fraction height range \<^verbatim>\<open>(0.5, 0.5)\<close> and the
  integer width range \<open>(2, 4)\<close> on a 20 by 20 image, the width is \<open>int(20 * 2.0) = 40\<close>, and
  not a value of \<open>[2, min 4 20]\<close> as the width range's own type gives.
\<close>

theorem width_not_by_own_type:
  "calculate_hole_dimensions 20 20 (FloatV (1/2), FloatV (1/2)) (IntV 2, IntV 4) [] = Inr ((10, 40), [])
   \<and> spec_hole_dimensions 20 20 (FloatV (1/2), FloatV (1/2)) (IntV 2, IntV 4) [] = Inr ((10, 2), [])
   \<and> is_int (fst (IntV 2, IntV 4))
   \<and> \<not> (2 \<le> (40::int) \<and> (40::int) \<le> min 4 20)"
  by code_simp

text \<open>
  C7 holds for the height: the fraction range \<^verbatim>\<open>(0.5, 0.5)\<close> on a height of 20 gives 10. It
  fails for the width range when the height range is integer-typed: with the height range
  \<open>(2, 4)\<close> and the fraction width range \<^verbatim>\<open>(0.5, 0.5)\<close> on a 20 by 20 image the width is an
  integer draw between \<open>int(0.5)\<close> and \<open>int(0.5 + 1) - 1\<close>, which is 0, and not
  \<open>floor(20 * 0.5) = 10\<close>.
\<close>

theorem fraction_width_in_integer_branch:
  "calculate_hole_dimensions 20 20 (IntV 2, IntV 4) (FloatV (1/2), FloatV (1/2)) [1/2, 1/2]
     = Inr ((3, 0), [])
   \<and> spec_hole_dimensions 20 20 (IntV 2, IntV 4) (FloatV (1/2), FloatV (1/2)) [1/2, 1/2]
     = Inr ((3, 10), [])
   \<and> calculate_hole_dimensions 20 20 (FloatV (1/2), FloatV (1/2)) (FloatV (1/2), FloatV (1/2)) [1/3, 2/3]
     = Inr ((10, 10), [])
   \<and> is_float (fst (FloatV (1/2), FloatV (1/2)))
   \<and> \<lfloor>fl (fl 20 * (1/2))\<rfloor> = (10::int)"
  by code_simp


end
